theory Spec2Isabelle
  imports Main "HOL-Library.Monad_Syntax"
begin

section \<open>Event logging: a model of eventlogging.py\<close>

text \<open>
  The module has four parts: a clock, a per-thread correlation identifier, the JSON
  encoder that renders datetimes and exceptions as strings, and the logger that stamps
  an event with metadata and prints one JSON line. Each is translated below as the
  source writes it. Exceptions of the program are values of \<open>error\<close>; mutable objects
  are records passed in and returned updated. The logger is given twice: first with
  the event as the value of its class name and fields, then with the event as a
  reference into a store of objects, which is how Python passes it.
\<close>

subsection \<open>CorrelationID\<close>

text \<open>
  An execution context is a thread; threads are told apart by a number.
  \<open>LocalWithValueField\<close> is a \<open>threading.local\<close> whose \<open>__init__\<close> runs on a thread's
  first access and sets \<open>value = None\<close>: the field \<open>local_value\<close> is a table from
  thread to an optional string that starts as \<open>None\<close> everywhere. Python's \<open>None\<close> is
  \<open>None\<close>, a string \<open>s\<close> is \<open>Some s\<close>.

  The generator \<open>generate_id\<close> is a callable without arguments that may answer
  differently on each call (the default is \<open>str(uuid1())\<close>): it is the sequence of its
  answers, \<open>generate_id n\<close> being the answer to call number \<open>n\<close>, together with the
  count \<open>calls\<close> of calls made so far.
\<close>

type_synonym thread = nat

record CorrelationID =
  generate_id :: "nat \<Rightarrow> string option"
  calls :: nat
  local_value :: "thread \<Rightarrow> string option"

definition CorrelationID_init :: "(nat \<Rightarrow> string option) \<Rightarrow> CorrelationID" where
  "CorrelationID_init g = \<lparr>generate_id = g, calls = 0, local_value = (\<lambda>t. None)\<rparr>"

text \<open>Truth value of an optional string: \<open>None\<close> and the empty string are false.\<close>

fun truthy :: "string option \<Rightarrow> bool" where
  "truthy None = False"
| "truthy (Some s) = (s \<noteq> [])"

text \<open>
  \<open>self.correlation_id.value = value or self.generate_id()\<close>, run by thread \<open>t\<close>.
  The right operand of \<open>or\<close> is evaluated only when the left one is false.
\<close>

definition set_value :: "thread \<Rightarrow> string option \<Rightarrow> CorrelationID \<Rightarrow> CorrelationID" where
  "set_value t v c =
     (if truthy v then c\<lparr>local_value := (local_value c)(t := v)\<rparr>
      else c\<lparr>calls := Suc (calls c),
              local_value := (local_value c)(t := generate_id c (calls c))\<rparr>)"

definition get_value :: "thread \<Rightarrow> CorrelationID \<Rightarrow> string option" where
  "get_value t c = local_value c t"

definition reset_value :: "thread \<Rightarrow> CorrelationID \<Rightarrow> CorrelationID" where
  "reset_value t c = c\<lparr>local_value := (local_value c)(t := None)\<rparr>"

text \<open>
  A history of calls made by several threads on one CorrelationID, in the order in
  which they take effect.
\<close>

datatype call = Set thread "string option" | Get thread | Reset thread

fun caller :: "call \<Rightarrow> thread" where
  "caller (Set t v) = t"
| "caller (Get t) = t"
| "caller (Reset t) = t"

fun is_set_by :: "thread \<Rightarrow> call \<Rightarrow> bool" where
  "is_set_by t (Set u v) = (u = t)"
| "is_set_by t (Get u) = False"
| "is_set_by t (Reset u) = False"

fun run_call :: "call \<Rightarrow> CorrelationID \<Rightarrow> CorrelationID" where
  "run_call (Set t v) c = set_value t v c"
| "run_call (Get t) c = c"
| "run_call (Reset t) c = reset_value t c"

fun run_calls :: "call list \<Rightarrow> CorrelationID \<Rightarrow> CorrelationID" where
  "run_calls [] c = c"
| "run_calls (x # xs) c = run_calls xs (run_call x c)"


subsection \<open>Datetimes and their ISO format\<close>

text \<open>
  A \<open>datetime.datetime\<close> as the encoder sees it: the calendar fields and the offset
  from UTC that its \<open>tzinfo\<close> answers, a \<open>timedelta\<close> counted here in microseconds
  (\<open>None\<close> for a naive datetime).
\<close>

record datetime =
  year :: nat
  month :: nat
  day :: nat
  hour :: nat
  minute :: nat
  second :: nat
  microsecond :: nat
  utcoffset :: "int option"




definition digit :: "nat \<Rightarrow> char" where
  "digit n = char_of (48 + n)"

text \<open>\<open>"%d" % n\<close> for a natural number.\<close>

fun decimal :: "nat \<Rightarrow> string" where
  "decimal n = (if n < 10 then [digit n] else decimal (n div 10) @ [digit (n mod 10)])"

declare decimal.simps [simp del]

text \<open>\<open>"%0kd" % n\<close>: at least \<open>k\<close> digits, zeros in front.\<close>

definition zero_padded :: "nat \<Rightarrow> nat \<Rightarrow> string" where
  "zero_padded k n = replicate (k - length (decimal n)) (CHR ''0'') @ decimal n"

text \<open>
  The time of day, with \<open>timespec='auto'\<close>: the microseconds are written only when
  they are not zero.
\<close>

definition format_time :: "nat \<Rightarrow> nat \<Rightarrow> nat \<Rightarrow> nat \<Rightarrow> string" where
  "format_time hh mm ss us =
     zero_padded 2 hh @ '':'' @ zero_padded 2 mm @ '':'' @ zero_padded 2 ss @
     (if us \<noteq> 0 then ''.'' @ zero_padded 6 us else [])"

text \<open>
  The offset: a sign, hours and minutes, then the seconds when seconds or microseconds
  are not zero, then the microseconds when they are not zero. Nothing for a naive
  datetime.
\<close>

definition format_offset :: "int option \<Rightarrow> string" where
  "format_offset off =
     (case off of None \<Rightarrow> []
      | Some x \<Rightarrow>
          (let a = nat \<bar>x\<bar>;
               us = a mod 1000000;
               s = a div 1000000;
               hh = s div 3600;
               mm = (s mod 3600) div 60;
               ss = s mod 60
           in (if x < 0 then ''-'' else ''+'') @ zero_padded 2 hh @ '':'' @ zero_padded 2 mm @
              (if ss \<noteq> 0 \<or> us \<noteq> 0
               then '':'' @ zero_padded 2 ss @ (if us \<noteq> 0 then ''.'' @ zero_padded 6 us else [])
               else [])))"

definition isoformat :: "datetime \<Rightarrow> string" where
  "isoformat d =
     zero_padded 4 (year d) @ ''-'' @ zero_padded 2 (month d) @ ''-'' @
     zero_padded 2 (day d) @ ''T'' @
     format_time (hour d) (minute d) (second d) (microsecond d) @
     format_offset (utcoffset d)"








subsection \<open>Values, events and errors\<close>

text \<open>
  The values an event field can hold, as far as the encoder and \<open>asJson\<close> tell them
  apart. Strings are lists of characters with code points below 256. A float is not
  computed with: \<open>PFloat r\<close> carries the text \<open>r\<close> that \<open>json\<close> writes for it
  (\<open>float.__repr__\<close> for a finite float).
  \<open>PList\<close> stands for lists and tuples, \<open>PDict\<close> for a dict with string keys in
  insertion order. The type \<open>'e\<close> is that of error objects: \<open>PException x\<close> is an
  instance \<open>x\<close> of \<open>Exception\<close>, and \<open>PBaseException n x\<close> an error \<open>x\<close> of a class named
  \<open>n\<close> that derives from \<open>BaseException\<close> but not from \<open>Exception\<close>
  (\<open>KeyboardInterrupt\<close>, \<open>SystemExit\<close>, \<open>GeneratorExit\<close>, \<open>asyncio.CancelledError\<close>).
  \<open>PCallable n v\<close> is a callable object of class \<open>n\<close> (a function, a bound method, an
  instance with \<open>__call__\<close>) that returns \<open>v\<close> when called without arguments.
  \<open>PObject n\<close> is an instance of any other class, named \<open>n\<close>: a class the encoder has
  no rule for (a nested Event is one); such instances are data, none of them callable.
\<close>

datatype 'e pyval =
    PNone
  | PBool bool
  | PInt int
  | PFloat string
  | PStr string
  | PDatetime datetime
  | PException 'e
  | PBaseException string 'e
  | PList "'e pyval list"
  | PDict "(string \<times> 'e pyval) list"
  | PCallable string "'e pyval"
  | PObject string

text \<open>
  Both errors are Python's \<open>TypeError\<close>: \<open>Object of type n is not JSON serializable\<close>,
  raised by \<open>json.JSONEncoder.default\<close>, and \<open>object is not callable\<close>.
\<close>

datatype error =
    TypeError_not_serializable string
  | TypeError_not_callable

text \<open>
  An instance of a subclass of \<open>Event\<close>: the name of its class and its instance
  dictionary, which is what \<open>vars(event)\<close> returns.
\<close>

record 'e Event =
  class_name :: string
  vars :: "(string \<times> 'e pyval) list"

text \<open>
  \<open>event.type()\<close>. The method is found on the class unless the instance dictionary
  has an entry \<open>type\<close>, which then is what gets called: a callable entry answers in
  the method's place, any other raises.
\<close>

definition Event_type :: "'e Event \<Rightarrow> error + 'e pyval" where
  "Event_type e =
     (case map_of (vars e) ''type'' of
        None \<Rightarrow> Inr (PStr (class_name e))
      | Some f \<Rightarrow>
          (case f of
             PCallable n v \<Rightarrow> Inr v
           | _ \<Rightarrow> Inl TypeError_not_callable))"

subsection \<open>The JSON encoder\<close>

text \<open>
  The text of a stack trace can hold any character, so it is a \<open>str\<close> given by its
  code points, each below \<open>0x110000\<close>.
\<close>

type_synonym unicode = "nat list"

text \<open>
  \<open>extract_stacktrace\<close> joins the lines that
  \<open>traceback.TracebackException.from_exception(exception).format()\<close> yields. That
  formatter belongs to the platform; it is the parameter \<open>fmt\<close> here and below.
\<close>

definition extract_stacktrace :: "('e \<Rightarrow> unicode list) \<Rightarrow> 'e \<Rightarrow> unicode" where
  "extract_stacktrace fmt exception = concat (fmt exception)"







text \<open>
  \<open>JSONEncoder.default\<close>: both branches that return give a \<open>str\<close>; every other object
  goes to \<open>json.JSONEncoder.default\<close>, which raises. The test for an error is
  \<open>isinstance(obj, Exception)\<close>.
\<close>

fun type_name :: "'e pyval \<Rightarrow> string" where
  "type_name PNone = ''NoneType''"
| "type_name (PBool b) = ''bool''"
| "type_name (PInt i) = ''int''"
| "type_name (PFloat r) = ''float''"
| "type_name (PStr s) = ''str''"
| "type_name (PDatetime d) = ''datetime''"
| "type_name (PException x) = ''Exception''"
| "type_name (PBaseException n x) = n"
| "type_name (PList vs) = ''list''"
| "type_name (PDict kvs) = ''dict''"
| "type_name (PCallable n v) = n"
| "type_name (PObject n) = n"

fun JSONEncoder_default :: "('e \<Rightarrow> unicode list) \<Rightarrow> 'e pyval \<Rightarrow> error + unicode" where
  "JSONEncoder_default fmt (PDatetime d) = Inr (map of_char (isoformat d))"
| "JSONEncoder_default fmt (PException x) = Inr (extract_stacktrace fmt x)"
| "JSONEncoder_default fmt obj = Inl (TypeError_not_serializable (type_name obj))"

text \<open>
  How \<open>json\<close> writes a string with \<open>ensure_ascii\<close>, its default: between double
  quotes, with the double quote, the backslash and the control characters that have
  a short escape written so, every other character outside the printable ASCII range
  as \<open>\u\<close> and four lowercase hexadecimal digits, and the rest as it is.
\<close>

definition hex_digit :: "nat \<Rightarrow> char" where
  "hex_digit n = (if n < 10 then char_of (48 + n) else char_of (87 + n))"

definition hex4 :: "nat \<Rightarrow> string" where
  "hex4 n = [hex_digit (n div 4096 mod 16), hex_digit (n div 256 mod 16),
             hex_digit (n div 16 mod 16), hex_digit (n mod 16)]"

definition escape_char :: "char \<Rightarrow> string" where
  "escape_char c =
     (if c = CHR 0x5C then [CHR 0x5C, CHR 0x5C]
      else if c = CHR 0x22 then [CHR 0x5C, CHR 0x22]
      else if c = CHR 0x08 then [CHR 0x5C, CHR ''b'']
      else if c = CHR 0x0C then [CHR 0x5C, CHR ''f'']
      else if c = CHR 0x0A then [CHR 0x5C, CHR ''n'']
      else if c = CHR 0x0D then [CHR 0x5C, CHR ''r'']
      else if c = CHR 0x09 then [CHR 0x5C, CHR ''t'']
      else if 32 \<le> (of_char c :: nat) \<and> (of_char c :: nat) \<le> 126 then [c]
      else [CHR 0x5C, CHR ''u''] @ hex4 (of_char c))"

definition encode_basestring_ascii :: "string \<Rightarrow> string" where
  "encode_basestring_ascii s = [CHR 0x22] @ concat (map escape_char s) @ [CHR 0x22]"

text \<open>
  The same for a \<open>str\<close> given by its code points. A code point from \<open>0x10000\<close> on is
  written as two \<open>\u\<close> escapes, the surrogate pair that stands for it in UTF-16.
\<close>

definition escape_code_point :: "nat \<Rightarrow> string" where
  "escape_code_point n =
     (if n = 0x5C then [CHR 0x5C, CHR 0x5C]
      else if n = 0x22 then [CHR 0x5C, CHR 0x22]
      else if n = 0x08 then [CHR 0x5C, CHR ''b'']
      else if n = 0x0C then [CHR 0x5C, CHR ''f'']
      else if n = 0x0A then [CHR 0x5C, CHR ''n'']
      else if n = 0x0D then [CHR 0x5C, CHR ''r'']
      else if n = 0x09 then [CHR 0x5C, CHR ''t'']
      else if 32 \<le> n \<and> n \<le> 126 then [char_of n]
      else if n < 0x10000 then [CHR 0x5C, CHR ''u''] @ hex4 n
      else [CHR 0x5C, CHR ''u''] @ hex4 (0xD800 + (n - 0x10000) div 1024 mod 1024) @
           [CHR 0x5C, CHR ''u''] @ hex4 (0xDC00 + (n - 0x10000) mod 1024))"

definition encode_unicode_ascii :: "unicode \<Rightarrow> string" where
  "encode_unicode_ascii s = [CHR 0x22] @ concat (map escape_code_point s) @ [CHR 0x22]"

text \<open>\<open>int.__repr__\<close>.\<close>

definition int_repr :: "int \<Rightarrow> string" where
  "int_repr i = (if i < 0 then ''-'' @ decimal (nat (- i)) else decimal (nat i))"

text \<open>\<open>sep.join(parts)\<close>.\<close>

fun join :: "string \<Rightarrow> string list \<Rightarrow> string" where
  "join sep [] = []"
| "join sep [x] = x"
| "join sep (x # y # ys) = x @ sep @ join sep (y # ys)"

text \<open>
  \<open>json.dumps(obj, cls=JSONEncoder)\<close>, with the defaults of \<open>json.dumps\<close>: the
  separators are \<open>', '\<close> between items and \<open>': '\<close> after a key. Values are written
  in order, so the first one that cannot be encoded decides the error. An object
  that is none of the types \<open>json\<close> knows is given to \<open>default\<close>, and what that
  returns, a string, is encoded in its place.
\<close>

fun dumps :: "('e \<Rightarrow> unicode list) \<Rightarrow> 'e pyval \<Rightarrow> error + string"
  and dumps_list :: "('e \<Rightarrow> unicode list) \<Rightarrow> 'e pyval list \<Rightarrow> error + string list"
  and dumps_items :: "('e \<Rightarrow> unicode list) \<Rightarrow> (string \<times> 'e pyval) list \<Rightarrow> error + string list"
where
  "dumps fmt PNone = Inr ''null''"
| "dumps fmt (PBool b) = Inr (if b then ''true'' else ''false'')"
| "dumps fmt (PInt i) = Inr (int_repr i)"
| "dumps fmt (PFloat r) = Inr r"
| "dumps fmt (PStr s) = Inr (encode_basestring_ascii s)"
| "dumps fmt (PList vs) =
     (case dumps_list fmt vs of
        Inl err \<Rightarrow> Inl err
      | Inr parts \<Rightarrow> Inr (''['' @ join '', '' parts @ '']''))"
| "dumps fmt (PDict kvs) =
     (case dumps_items fmt kvs of
        Inl err \<Rightarrow> Inl err
      | Inr parts \<Rightarrow> Inr (''{'' @ join '', '' parts @ ''}''))"
| "dumps fmt (PDatetime d) =
     (case JSONEncoder_default fmt (PDatetime d) of
        Inl err \<Rightarrow> Inl err
      | Inr s \<Rightarrow> Inr (encode_unicode_ascii s))"
| "dumps fmt (PException x) =
     (case JSONEncoder_default fmt (PException x) of
        Inl err \<Rightarrow> Inl err
      | Inr s \<Rightarrow> Inr (encode_unicode_ascii s))"
| "dumps fmt (PBaseException n x) =
     (case JSONEncoder_default fmt (PBaseException n x) of
        Inl err \<Rightarrow> Inl err
      | Inr s \<Rightarrow> Inr (encode_unicode_ascii s))"
| "dumps fmt (PCallable n v) =
     (case JSONEncoder_default fmt (PCallable n v) of
        Inl err \<Rightarrow> Inl err
      | Inr s \<Rightarrow> Inr (encode_unicode_ascii s))"
| "dumps fmt (PObject n) =
     (case JSONEncoder_default fmt (PObject n) of
        Inl err \<Rightarrow> Inl err
      | Inr s \<Rightarrow> Inr (encode_unicode_ascii s))"
| "dumps_list fmt [] = Inr []"
| "dumps_list fmt (v # vs) =
     (case dumps fmt v of
        Inl err \<Rightarrow> Inl err
      | Inr s \<Rightarrow>
          (case dumps_list fmt vs of
             Inl err \<Rightarrow> Inl err
           | Inr parts \<Rightarrow> Inr (s # parts)))"
| "dumps_items fmt [] = Inr []"
| "dumps_items fmt (kv # kvs) =
     (case dumps fmt (snd kv) of
        Inl err \<Rightarrow> Inl err
      | Inr s \<Rightarrow>
          (case dumps_items fmt kvs of
             Inl err \<Rightarrow> Inl err
           | Inr parts \<Rightarrow> Inr ((encode_basestring_ascii (fst kv) @ '': '' @ s) # parts)))"










subsection \<open>The logger\<close>

text \<open>
  A \<open>TextStreamEventLogger\<close> with the objects it refers to. \<open>correlation_id\<close> is
  \<open>None\<close> or the CorrelationID given to the constructor, in its present state. The
  clock, like the generator, is the sequence of its answers with the count of calls
  made. The text stream \<open>output_stream\<close> is the list of the strings written to it so far, one per call
  of \<open>write\<close>.
\<close>

record TextStreamEventLogger =
  correlation_id :: "CorrelationID option"
  clock :: "nat \<Rightarrow> datetime"
  now_calls :: nat
  output_stream :: "string list"

text \<open>
  \<open>asJson\<close>, called by thread \<open>t\<close>. The clock is read first, then the type. The test
  \<open>if self.correlation_id\<close> is false for \<open>None\<close> and true for every CorrelationID, a
  class that defines neither \<open>__bool__\<close> nor \<open>__len__\<close>. \<open>metadata.update\<close> adds
  the new key after the two that are there.
\<close>

definition optional_str :: "string option \<Rightarrow> 'e pyval" where
  "optional_str v = (case v of None \<Rightarrow> PNone | Some s \<Rightarrow> PStr s)"

definition asJson ::
  "TextStreamEventLogger \<Rightarrow> thread \<Rightarrow> 'e Event \<Rightarrow> (error + 'e pyval) \<times> TextStreamEventLogger" where
  "asJson self t event =
     (let timestamp = clock self (now_calls self);
          self1 = self\<lparr>now_calls := Suc (now_calls self)\<rparr>
      in case Event_type event of
           Inl err \<Rightarrow> (Inl err, self1)
         | Inr ty \<Rightarrow>
             (let metadata = [(''timestamp'', PDatetime timestamp), (''type'', ty)];
                  metadata1 =
                    (case correlation_id self of
                       None \<Rightarrow> metadata
                     | Some c \<Rightarrow> metadata @ [(''correlation_id'', optional_str (get_value t c))])
              in (Inr (PDict [(''metadata'', PDict metadata1), (''event'', PDict (vars event))]),
                  self1)))"

text \<open>
  \<open>log\<close>: \<open>print(text, file=output)\<close> writes the text and then the line terminator,
  in two calls of \<open>write\<close>. The first component of the result is the exception that
  leaves \<open>log\<close>, if one does; nothing in \<open>log\<close> catches any.
\<close>

definition log ::
  "('e \<Rightarrow> unicode list) \<Rightarrow> TextStreamEventLogger \<Rightarrow> thread \<Rightarrow> 'e Event \<Rightarrow>
     error option \<times> TextStreamEventLogger" where
  "log fmt self t event =
     (case asJson self t event of
        (Inl err, self1) \<Rightarrow> (Some err, self1)
      | (Inr obj, self1) \<Rightarrow>
          (case dumps fmt obj of
             Inl err \<Rightarrow> (Some err, self1)
           | Inr text \<Rightarrow> (None, self1\<lparr>output_stream := output_stream self1 @ [text, [CHR 0x0A]]\<rparr>)))"

text \<open>What the stream holds: the writes, one after the other.\<close>

definition written :: "TextStreamEventLogger \<Rightarrow> string" where
  "written self = concat (output_stream self)"

subsection \<open>The logger, with the event passed by reference\<close>

text \<open>
  Python passes the event to \<open>log\<close> as a reference to an object that the caller goes
  on holding, and \<open>vars(event)\<close> is the instance dictionary of that object itself,
  not a copy of it. The two methods are written out once more with this in view.
  The objects live in a store, \<open>objects\<close>, under their references. \<open>kept\<close> lists the
  references to them that are stored in attributes of the logger object; its
  constructor stores none.
\<close>

type_synonym ref = nat

record 'e world =
  objects :: "ref \<Rightarrow> 'e Event"
  logger :: TextStreamEventLogger
  kept :: "ref list"

text \<open>
  What a variable of the two methods can hold: a value, a dict that the call has
  built, or the instance dictionary of the object at a reference.
\<close>

datatype 'e obj =
    Value "'e pyval"
  | Built "(string \<times> 'e obj) list"
  | Vars ref

text \<open>
  \<open>asJson\<close>: the dict it returns has the event's own instance dictionary under
  \<open>event\<close>. The dict \<open>metadata\<close> is built by the call, and it is the one that \<open>update\<close>
  changes.
\<close>

definition EventLogger_asJson ::
  "'e world \<Rightarrow> thread \<Rightarrow> ref \<Rightarrow> (error + 'e obj) \<times> 'e world" where
  "EventLogger_asJson w t event =
     (let self = logger w;
          timestamp = clock self (now_calls self);
          w1 = w\<lparr>logger := self\<lparr>now_calls := Suc (now_calls self)\<rparr>\<rparr>
      in case Event_type (objects w1 event) of
           Inl err \<Rightarrow> (Inl err, w1)
         | Inr ty \<Rightarrow>
             (let metadata = [(''timestamp'', Value (PDatetime timestamp)), (''type'', Value ty)];
                  metadata1 =
                    (case correlation_id self of
                       None \<Rightarrow> metadata
                     | Some c \<Rightarrow>
                         metadata @ [(''correlation_id'', Value (optional_str (get_value t c)))])
              in (Inr (Built [(''metadata'', Built metadata1), (''event'', Vars event)]), w1)))"

text \<open>
  What \<open>json.dumps\<close> finds when it goes through such an object: at a reference, the
  instance dictionary as the store has it at that moment.
\<close>

fun contents :: "'e world \<Rightarrow> 'e obj \<Rightarrow> 'e pyval"
  and contents_items :: "'e world \<Rightarrow> (string \<times> 'e obj) list \<Rightarrow> (string \<times> 'e pyval) list"
where
  "contents w (Value v) = v"
| "contents w (Built kvs) = PDict (contents_items w kvs)"
| "contents w (Vars r) = PDict (vars (objects w r))"
| "contents_items w [] = []"
| "contents_items w (kv # kvs) = (fst kv, contents w (snd kv)) # contents_items w kvs"

definition TextStreamEventLogger_log ::
  "('e \<Rightarrow> unicode list) \<Rightarrow> 'e world \<Rightarrow> thread \<Rightarrow> ref \<Rightarrow> error option \<times> 'e world" where
  "TextStreamEventLogger_log fmt w t event =
     (case EventLogger_asJson w t event of
        (Inl err, w1) \<Rightarrow> (Some err, w1)
      | (Inr obj, w1) \<Rightarrow>
          (case dumps fmt (contents w1 obj) of
             Inl err \<Rightarrow> (Some err, w1)
           | Inr text \<Rightarrow>
               (None, w1\<lparr>logger := (logger w1)\<lparr>output_stream :=
                                 output_stream (logger w1) @ [text, [CHR 0x0A]]\<rparr>\<rparr>)))"

subsection \<open>Threads writing to one stream\<close>


subsection \<open>Observations and the objects of the tests\<close>

text \<open>\<open>obj[k]\<close> for a dict, \<open>None\<close> where the key is absent or \<open>obj\<close> is no dict.\<close>

fun entry :: "string \<Rightarrow> 'e pyval \<Rightarrow> 'e pyval option" where
  "entry k (PDict kvs) = map_of kvs k"
| "entry k obj = None"

text \<open>
  The entry \<open>k\<close> of the metadata in what \<open>asJson\<close> returned: \<open>None\<close> when the key is
  absent, \<open>Some PNone\<close> when it is present with the value \<open>None\<close>.
\<close>

definition metadata_entry :: "error + 'e pyval \<Rightarrow> string \<Rightarrow> 'e pyval option" where
  "metadata_entry r k =
     (case r of
        Inl err \<Rightarrow> None
      | Inr obj \<Rightarrow> (case entry ''metadata'' obj of None \<Rightarrow> None | Some md \<Rightarrow> entry k md))"


text \<open>
  From the test file: an event class \<open>TestEvent\<close> with one field, the clock that
  always answers 2021-05-01 11:22:33.001234 UTC, and a logger as its constructor
  leaves it, writing to an empty stream.
\<close>

definition TestEvent :: "string \<Rightarrow> 'e pyval \<Rightarrow> 'e Event" where
  "TestEvent k v = \<lparr>class_name = ''TestEvent'', vars = [(k, v)]\<rparr>"

definition TestClock :: "nat \<Rightarrow> datetime" where
  "TestClock n = \<lparr>year = 2021, month = 5, day = 1, hour = 11, minute = 22, second = 33,
                   microsecond = 1234, utcoffset = Some 0\<rparr>"

definition TextStreamEventLogger_init ::
  "CorrelationID option \<Rightarrow> (nat \<Rightarrow> datetime) \<Rightarrow> TextStreamEventLogger" where
  "TextStreamEventLogger_init c clk =
     \<lparr>correlation_id = c, clock = clk, now_calls = 0, output_stream = []\<rparr>"

section \<open>Properties\<close>

subsection \<open>Evaluation\<close>

lemma digit_simps:
  "digit 0 = CHR ''0''" "digit 1 = CHR ''1''" "digit (Suc 0) = CHR ''1''" "digit 2 = CHR ''2''"
  "digit 3 = CHR ''3''" "digit 4 = CHR ''4''" "digit 5 = CHR ''5''" "digit 6 = CHR ''6''"
  "digit 7 = CHR ''7''" "digit 8 = CHR ''8''" "digit 9 = CHR ''9''"
  by (simp_all add: digit_def char_of_def bit_Suc_0_iff)


lemma replicate_numeral: "replicate (numeral k) x = x # replicate (pred_numeral k) x"
  by (simp add: numeral_eq_Suc)


lemmas isoformat_eval = isoformat_def zero_padded_def decimal.simps digit_simps format_time_def
  format_offset_def Let_def replicate_numeral

lemmas log_eval = log_def asJson_def Event_type_def TestEvent_def TestClock_def
  TextStreamEventLogger_init_def optional_str_def encode_basestring_ascii_def escape_char_def
  written_def

subsection \<open>CorrelationID\<close>

lemma run_call_other: "caller x \<noteq> u \<Longrightarrow> local_value (run_call x c) u = local_value c u"
  by (cases x) (auto simp: set_value_def reset_value_def)

lemma run_calls_other:
  "\<forall>x\<in>set xs. caller x \<noteq> u \<Longrightarrow> local_value (run_calls xs c) u = local_value c u"
  by (induction xs arbitrary: c) (simp_all add: run_call_other)

lemma run_call_not_set:
  "\<not> is_set_by u x \<Longrightarrow> local_value c u = None \<Longrightarrow> local_value (run_call x c) u = None"
  by (cases x) (auto simp: reset_value_def set_value_def)

lemma run_calls_never_set:
  "\<forall>x\<in>set xs. \<not> is_set_by u x \<Longrightarrow> local_value c u = None \<Longrightarrow>
   local_value (run_calls xs c) u = None"
  by (induction xs arbitrary: c) (simp_all add: run_call_not_set)

text \<open>
  Claim C2. In every thread, \<open>set(v)\<close> with \<open>v\<close> \<open>None\<close> or the empty string stores what
  the generator answers, calling it once, and \<open>set(v)\<close> with a non-empty string stores
  that string without calling the generator; \<open>get()\<close> in the same thread then returns
  the generator's answer in the first case and \<open>v\<close> itself in the second.
\<close>

theorem set_then_get:
  "(v = None \<or> v = Some [] \<longrightarrow>
      get_value t (set_value t v c) = generate_id c (calls c) \<and>
      calls (set_value t v c) = Suc (calls c)) \<and>
   (\<forall>s. v = Some s \<and> s \<noteq> [] \<longrightarrow>
      get_value t (set_value t v c) = Some s \<and> calls (set_value t v c) = calls c)"
  by (auto simp: set_value_def get_value_def)

theorem set_then_get_witness:
  "get_value 3 (set_value 3 None (CorrelationID_init (\<lambda>n. Some ''test id''))) = Some ''test id'' \<and>
   get_value 3 (set_value 3 (Some []) (CorrelationID_init (\<lambda>n. Some ''test id''))) = Some ''test id'' \<and>
   get_value 3 (set_value 3 (Some ''abc'') (CorrelationID_init (\<lambda>n. Some ''test id''))) = Some ''abc''"
  using set_then_get [of None 3 "CorrelationID_init (\<lambda>n. Some ''test id'')"]
        set_then_get [of "Some []" 3 "CorrelationID_init (\<lambda>n. Some ''test id'')"]
        set_then_get [of "Some ''abc''" 3 "CorrelationID_init (\<lambda>n. Some ''test id'')"]
  by (simp add: CorrelationID_init_def)

text \<open>
  Claim C10. When the generator itself answers \<open>None\<close> or the empty string, \<open>set(None)\<close>
  and \<open>set("")\<close> store that answer as it is: the generator is called exactly once, its
  answer is not checked, and \<open>get()\<close> in the same thread returns it.
\<close>

theorem falsy_generator_stored:
  assumes "v = None \<or> v = Some []" and "\<not> truthy (generate_id c (calls c))"
  shows "get_value t (set_value t v c) = generate_id c (calls c) \<and>
         calls (set_value t v c) = Suc (calls c) \<and>
         \<not> truthy (get_value t (set_value t v c))"
  using assms by (auto simp: set_value_def get_value_def)

theorem falsy_generator_stored_witness:
  "get_value 0 (set_value 0 None (CorrelationID_init (\<lambda>n. Some []))) = Some [] \<and>
   calls (set_value 0 None (CorrelationID_init (\<lambda>n. Some []))) = 1 \<and>
   get_value 0 (set_value 0 (Some []) (CorrelationID_init (\<lambda>n. None))) = None"
  using falsy_generator_stored [of None "CorrelationID_init (\<lambda>n. Some [])" 0]
        falsy_generator_stored [of "Some []" "CorrelationID_init (\<lambda>n. None)" 0]
  by (simp add: CorrelationID_init_def)

text \<open>
  Claim C3. With the stored values as a table from thread to optional string: a call
  of \<open>set\<close>, \<open>get\<close> or \<open>reset\<close> made by one thread leaves the entry of every other thread
  as it was; what \<open>get\<close> returns in a thread is decided by that thread's entry alone,
  so calls made by other threads do not change it; and a thread that has never called
  \<open>set\<close> gets \<open>None\<close> from \<open>get\<close>, whatever the other threads have stored.
\<close>

theorem thread_isolation:
  "(caller x \<noteq> u \<longrightarrow> local_value (run_call x c) u = local_value c u) \<and>
   ((\<forall>x\<in>set xs. caller x \<noteq> u) \<longrightarrow> get_value u (run_calls xs c) = get_value u c) \<and>
   (local_value c u = local_value c' u \<longrightarrow> get_value u c = get_value u c') \<and>
   ((\<forall>x\<in>set xs. \<not> is_set_by u x) \<longrightarrow> get_value u (run_calls xs (CorrelationID_init g)) = None)"
  by (simp add: run_call_other run_calls_other run_calls_never_set get_value_def
        CorrelationID_init_def)

theorem thread_isolation_witness:
  "get_value 2 (run_calls [Set 1 (Some ''a''), Reset 2, Get 2, Set 3 None]
       (CorrelationID_init (\<lambda>n. Some ''g''))) = None \<and>
   get_value 1 (run_calls [Reset 2, Set 3 (Some ''b''), Get 3]
       (set_value 1 (Some ''a'') (CorrelationID_init (\<lambda>n. Some ''g'')))) = Some ''a'' \<and>
   local_value (run_call (Set 1 (Some ''a'')) (CorrelationID_init (\<lambda>n. Some ''g''))) 2 = None"
  using thread_isolation [of "Set 1 (Some ''a'')" 2 "CorrelationID_init (\<lambda>n. Some ''g'')"
          "[Set 1 (Some ''a''), Reset 2, Get 2, Set 3 None]"
          "CorrelationID_init (\<lambda>n. Some ''g'')" "\<lambda>n. Some ''g''"]
        thread_isolation [of "Get 3" 1 "set_value 1 (Some ''a'') (CorrelationID_init (\<lambda>n. Some ''g''))"
          "[Reset 2, Set 3 (Some ''b''), Get 3]"
          "set_value 1 (Some ''a'') (CorrelationID_init (\<lambda>n. Some ''g''))" "\<lambda>n. Some ''g''"]
  by (simp add: CorrelationID_init_def set_value_def get_value_def)

subsection \<open>The encoder\<close>

lemma of_char_less_256: "(of_char c :: nat) < 256"
  by (metis of_char_of char_of_char mod_less_divisor zero_less_numeral)

lemma of_char_less_65536: "(of_char c :: nat) < 65536"
  using of_char_less_256 [of c] by linarith






lemma escape_code_point_of_char: "escape_code_point (of_char c) = escape_char c"
proof -
  have n: "(of_char c :: nat) < 256" by (rule of_char_less_256)
  have eq: "((of_char c :: nat) = of_char d) = (c = d)" for d by (rule of_char_eq_iff)
  show ?thesis
    using of_char_less_65536 [of c] eq [of "CHR 0x5C"] eq [of "CHR 0x22"] eq [of "CHR 0x08"]
      eq [of "CHR 0x0C"] eq [of "CHR 0x0A"] eq [of "CHR 0x0D"] eq [of "CHR 0x09"]
    by (simp add: escape_code_point_def escape_char_def)
qed

lemma encode_unicode_of_char: "encode_unicode_ascii (map of_char s) = encode_basestring_ascii s"
  by (simp add: encode_unicode_ascii_def encode_basestring_ascii_def comp_def
        escape_code_point_of_char)














lemma dumps_datetime: "dumps fmt (PDatetime d) = Inr (encode_basestring_ascii (isoformat d))"
  by (simp add: encode_unicode_of_char)





subsection \<open>The logger\<close>




lemma asJson_state:
  "snd (asJson self t event) = self\<lparr>now_calls := Suc (now_calls self)\<rparr>"
  by (simp add: asJson_def Let_def split: sum.splits)

lemma asJson_value:
  "Event_type event = Inr ty \<Longrightarrow>
   fst (asJson self t event) =
     Inr (PDict [(''metadata'', PDict ([(''timestamp'', PDatetime (clock self (now_calls self))),
                                       (''type'', ty)] @
                    (case correlation_id self of None \<Rightarrow> []
                     | Some c \<Rightarrow> [(''correlation_id'', optional_str (get_value t c))]))),
                 (''event'', PDict (vars event))])"
  by (simp add: asJson_def Let_def split: option.splits)

lemma asJson_raises:
  "Event_type event = Inl err \<Longrightarrow> fst (asJson self t event) = Inl err"
  by (simp add: asJson_def Let_def)

lemma log_state:
  "now_calls (snd (log fmt self t event)) = Suc (now_calls self) \<and>
   correlation_id (snd (log fmt self t event)) = correlation_id self \<and>
   clock (snd (log fmt self t event)) = clock self"
  using asJson_state [of self t event]
  by (cases "asJson self t event") (auto simp: log_def split: sum.splits)

lemma log_returns:
  assumes "fst (asJson self t event) = Inr obj" and "dumps fmt obj = Inr text"
  shows "log fmt self t event =
     (None, self\<lparr>now_calls := Suc (now_calls self),
                 output_stream := output_stream self @ [text, [CHR 0x0A]]\<rparr>)"
  using assms asJson_state [of self t event]
  by (cases "asJson self t event") (simp add: log_def)

lemma log_raises:
  assumes "fst (asJson self t event) = Inr obj" and "dumps fmt obj = Inl err"
  shows "log fmt self t event = (Some err, self\<lparr>now_calls := Suc (now_calls self)\<rparr>)"
  using assms asJson_state [of self t event]
  by (cases "asJson self t event") (simp add: log_def)

lemma log_raises_early:
  assumes "fst (asJson self t event) = Inl err"
  shows "log fmt self t event = (Some err, self\<lparr>now_calls := Suc (now_calls self)\<rparr>)"
  using assms asJson_state [of self t event]
  by (cases "asJson self t event") (simp add: log_def)

lemma dumps_record:
  assumes "dumps fmt ty = Inr type_text"
    and "dumps_items fmt extra = Inr extra_parts"
    and "dumps_items fmt kvs = Inr parts"
  shows \<open>dumps fmt (PDict [(''metadata'', PDict ([(''timestamp'', PDatetime d), (''type'', ty)] @ extra)),
                           (''event'', PDict kvs)]) =
     Inr (''{"metadata": {"timestamp": '' @ encode_basestring_ascii (isoformat d) @
          '', "type": '' @ type_text @ concat (map ((@) '', '') extra_parts) @
          ''}, "event": {'' @ join '', '' parts @ ''}}'')\<close>
proof -
  have j: "join '', '' (y # zs) = y @ concat (map ((@) '', '') zs)" for y zs
    by (induction zs arbitrary: y) simp_all
  from assms show ?thesis
    by (simp add: j encode_unicode_of_char) (simp add: encode_basestring_ascii_def escape_char_def)
qed

text \<open>
  Claim C1. The metadata that \<open>asJson\<close> builds has the key \<open>correlation_id\<close> exactly
  when the logger was given a CorrelationID; its value is then what \<open>get()\<close> returns
  in the calling thread: \<open>None\<close> when that thread never called \<open>set\<close>, and \<open>v\<close> when the
  thread's last call was \<open>set(v)\<close> with \<open>v\<close> not empty, whatever other threads did
  before or after. So it is in the line that \<open>log\<close> writes: with no CorrelationID the
  metadata ends after the type, and with one it goes on with \<open>"correlation_id": \<close> and
  \<open>null\<close> or the value as a string. This holds whenever \<open>event.type()\<close> returns, and for
  the line whenever the type and the fields can be encoded.
\<close>

theorem correlation_id_key:
  assumes \<open>Event_type event = Inr ty\<close>
  shows \<open>(\<exists>md. fst (asJson self t event) = Inr (PDict [(''metadata'', md), (''event'', PDict (vars event))])) \<and>
    ((metadata_entry (fst (asJson self t event)) ''correlation_id'' \<noteq> None) =
       (correlation_id self \<noteq> None)) \<and>
    (correlation_id self = Some c \<longrightarrow>
       metadata_entry (fst (asJson self t event)) ''correlation_id'' =
         Some (optional_str (get_value t c))) \<and>
    (correlation_id self = Some (run_calls xs (CorrelationID_init g)) \<and>
       (\<forall>x\<in>set xs. \<not> is_set_by t x) \<longrightarrow>
       metadata_entry (fst (asJson self t event)) ''correlation_id'' = Some PNone) \<and>
    (v \<noteq> [] \<and> correlation_id self = Some (run_calls ys (set_value t (Some v) c0)) \<and>
       (\<forall>x\<in>set ys. caller x \<noteq> t) \<longrightarrow>
       metadata_entry (fst (asJson self t event)) ''correlation_id'' = Some (PStr v)) \<and>
    (dumps fmt ty = Inr type_text \<and> dumps_items fmt (vars event) = Inr parts \<longrightarrow>
       log fmt self t event =
         (None, self\<lparr>now_calls := Suc (now_calls self),
            output_stream := output_stream self @
              [''{"metadata": {"timestamp": '' @
                 encode_basestring_ascii (isoformat (clock self (now_calls self))) @
                 '', "type": '' @ type_text @
                 (case correlation_id self of
                    None \<Rightarrow> []
                  | Some c \<Rightarrow>
                      '', "correlation_id": '' @
                      (case get_value t c of
                         None \<Rightarrow> ''null''
                       | Some s \<Rightarrow> encode_basestring_ascii s)) @
                 ''}, "event": {'' @ join '', '' parts @ ''}}'',
               [CHR 0x0A]]\<rparr>))\<close>
proof -
  have never: "get_value t (run_calls xs (CorrelationID_init g)) = None"
    if "\<forall>x\<in>set xs. \<not> is_set_by t x"
    using that by (simp add: get_value_def run_calls_never_set CorrelationID_init_def)
  have last: "get_value t (run_calls ys (set_value t (Some v) c0)) = Some v"
    if "v \<noteq> []" "\<forall>x\<in>set ys. caller x \<noteq> t"
    using that by (simp add: get_value_def run_calls_other set_value_def)
  note built = asJson_value [OF assms, of self t]
  have dict: \<open>(\<exists>md. fst (asJson self t event) = Inr (PDict [(''metadata'', md), (''event'', PDict (vars event))])) \<and>
    ((metadata_entry (fst (asJson self t event)) ''correlation_id'' \<noteq> None) =
       (correlation_id self \<noteq> None)) \<and>
    (correlation_id self = Some c \<longrightarrow>
       metadata_entry (fst (asJson self t event)) ''correlation_id'' =
         Some (optional_str (get_value t c))) \<and>
    (correlation_id self = Some (run_calls xs (CorrelationID_init g)) \<and>
       (\<forall>x\<in>set xs. \<not> is_set_by t x) \<longrightarrow>
       metadata_entry (fst (asJson self t event)) ''correlation_id'' = Some PNone) \<and>
    (v \<noteq> [] \<and> correlation_id self = Some (run_calls ys (set_value t (Some v) c0)) \<and>
       (\<forall>x\<in>set ys. caller x \<noteq> t) \<longrightarrow>
       metadata_entry (fst (asJson self t event)) ''correlation_id'' = Some (PStr v))\<close>
    using built never last
    by (cases "correlation_id self") (auto simp: optional_str_def metadata_entry_def)
  have line: \<open>log fmt self t event =
         (None, self\<lparr>now_calls := Suc (now_calls self),
            output_stream := output_stream self @
              [''{"metadata": {"timestamp": '' @
                 encode_basestring_ascii (isoformat (clock self (now_calls self))) @
                 '', "type": '' @ type_text @
                 (case correlation_id self of
                    None \<Rightarrow> []
                  | Some c \<Rightarrow>
                      '', "correlation_id": '' @
                      (case get_value t c of
                         None \<Rightarrow> ''null''
                       | Some s \<Rightarrow> encode_basestring_ascii s)) @
                 ''}, "event": {'' @ join '', '' parts @ ''}}'',
               [CHR 0x0A]]\<rparr>)\<close>
    if ty: "dumps fmt ty = Inr type_text" and parts: "dumps_items fmt (vars event) = Inr parts"
  proof (cases "correlation_id self")
    case None
    have "dumps_items fmt ([] :: (string \<times> 'a pyval) list) = Inr []" by simp
    from dumps_record [OF ty this parts, of "clock self (now_calls self)"] built None
    show ?thesis by (simp add: log_returns)
  next
    case (Some c)
    show ?thesis
    proof (cases "get_value t c")
      case None
      have \<open>dumps_items fmt [(''correlation_id'', optional_str (get_value t c) :: 'a pyval)] =
          Inr [''"correlation_id": null'']\<close>
        by (simp add: None optional_str_def encode_basestring_ascii_def escape_char_def)
      from dumps_record [OF ty this parts, of "clock self (now_calls self)"] built Some None
      show ?thesis by (simp add: log_returns)
    next
      case (Some s)
      have \<open>dumps_items fmt [(''correlation_id'', optional_str (get_value t c) :: 'a pyval)] =
          Inr [''"correlation_id": '' @ encode_basestring_ascii s]\<close>
        by (simp add: Some optional_str_def) (simp add: encode_basestring_ascii_def escape_char_def)
      from dumps_record [OF ty this parts, of "clock self (now_calls self)"] built
        \<open>correlation_id self = Some c\<close> Some
      show ?thesis by (simp add: log_returns)
    qed
  qed
  from dict line show ?thesis by blast
qed

theorem correlation_id_key_witness:
  \<open>output_stream (snd (log (\<lambda>x :: unit. []) (TextStreamEventLogger_init None TestClock) 0
        (TestEvent ''int_value'' (PInt 1)))) =
     [''{"metadata": {"timestamp": "2021-05-01T11:22:33.001234+00:00", "type": "TestEvent"}, "event": {"int_value": 1}}'',
      [CHR 0x0A]] \<and>
   output_stream (snd (log (\<lambda>x :: unit. []) (TextStreamEventLogger_init
          (Some (CorrelationID_init (\<lambda>n. Some ''a correlation id''))) TestClock) 0
        (TestEvent ''int_value'' (PInt 1)))) =
     [''{"metadata": {"timestamp": "2021-05-01T11:22:33.001234+00:00", "type": "TestEvent", "correlation_id": null}, "event": {"int_value": 1}}'',
      [CHR 0x0A]] \<and>
   output_stream (snd (log (\<lambda>x :: unit. []) (TextStreamEventLogger_init
          (Some (set_value 0 (Some ''correlation id'') (CorrelationID_init (\<lambda>n. Some ''g''))))
          TestClock) 0
        (TestEvent ''int_value'' (PInt 1)))) =
     [''{"metadata": {"timestamp": "2021-05-01T11:22:33.001234+00:00", "type": "TestEvent", "correlation_id": "correlation id"}, "event": {"int_value": 1}}'',
      [CHR 0x0A]] \<and>
   metadata_entry (fst (asJson (TextStreamEventLogger_init None TestClock) 0
        (TestEvent ''int_value'' (PInt 1 :: unit pyval)))) ''correlation_id'' = None \<and>
   metadata_entry (fst (asJson (TextStreamEventLogger_init
          (Some (CorrelationID_init (\<lambda>n. Some ''a correlation id''))) TestClock) 0
        (TestEvent ''int_value'' (PInt 1 :: unit pyval)))) ''correlation_id'' = Some PNone \<and>
   metadata_entry (fst (asJson (TextStreamEventLogger_init
          (Some (set_value 0 (Some ''correlation id'') (CorrelationID_init (\<lambda>n. Some ''g''))))
          TestClock) 0
        (TestEvent ''int_value'' (PInt 1 :: unit pyval)))) ''correlation_id'' =
     Some (PStr ''correlation id'') \<and>
   Event_type \<lparr>class_name = ''Shadowed'', vars = [(''type'', PCallable ''function'' (PStr ''other''))]\<rparr> =
     Inr (PStr ''other'' :: unit pyval) \<and>
   metadata_entry (fst (asJson (TextStreamEventLogger_init
          (Some (CorrelationID_init (\<lambda>n. Some ''g''))) TestClock) 0
        \<lparr>class_name = ''Shadowed'', vars = [(''type'', PCallable ''function'' (PStr ''other'' :: unit pyval))]\<rparr>))
      ''correlation_id'' = Some PNone\<close>
proof -
  have ty: "Event_type (TestEvent ''int_value'' (PInt 1 :: unit pyval)) = Inr (PStr ''TestEvent'')"
    by (simp add: Event_type_def TestEvent_def)
  have ty': "Event_type \<lparr>class_name = ''Shadowed'',
       vars = [(''type'', PCallable ''function'' (PStr ''other'' :: unit pyval))]\<rparr> = Inr (PStr ''other'')"
    by (simp add: Event_type_def)
  have parts: \<open>dumps_items (\<lambda>x :: unit. []) (vars (TestEvent ''int_value'' (PInt 1))) = Inr [''"int_value": 1'']\<close>
    by (simp add: TestEvent_def int_repr_def decimal.simps digit_simps encode_basestring_ascii_def
          escape_char_def)
  have tytext: \<open>dumps (\<lambda>x :: unit. []) (PStr ''TestEvent'') = Inr ''"TestEvent"''\<close>
    by (simp add: encode_basestring_ascii_def escape_char_def)
  have iso: "isoformat (TestClock 0) = ''2021-05-01T11:22:33.001234+00:00''"
    by (simp add: TestClock_def isoformat_eval)
  from correlation_id_key [OF ty, of "TextStreamEventLogger_init None TestClock" 0 _ _ _ _ _ _
          "\<lambda>x. []" _ _] 
       correlation_id_key [OF ty, of "TextStreamEventLogger_init
            (Some (CorrelationID_init (\<lambda>n. Some ''a correlation id''))) TestClock" 0 _
          "[]" "\<lambda>n. Some ''a correlation id''" _ _ _ "\<lambda>x. []"]
       correlation_id_key [OF ty, of "TextStreamEventLogger_init
            (Some (set_value 0 (Some ''correlation id'') (CorrelationID_init (\<lambda>n. Some ''g''))))
            TestClock" 0 _ _ _ "''correlation id''" "[]" "CorrelationID_init (\<lambda>n. Some ''g'')" "\<lambda>x. []"]
       correlation_id_key [OF ty', of "TextStreamEventLogger_init
            (Some (CorrelationID_init (\<lambda>n. Some ''g''))) TestClock" 0 _ "[]" "\<lambda>n. Some ''g''"]
       ty' parts tytext iso
  show ?thesis
    by (simp add: TextStreamEventLogger_init_def get_value_def set_value_def CorrelationID_init_def
          encode_basestring_ascii_def escape_char_def)
qed




subsection \<open>The event, by reference\<close>

lemma EventLogger_asJson_raises:
  assumes "Event_type (objects w r) = Inl err"
  shows "EventLogger_asJson w t r =
     (Inl err, w\<lparr>logger := (logger w)\<lparr>now_calls := Suc (now_calls (logger w))\<rparr>\<rparr>)"
  using assms by (simp add: EventLogger_asJson_def Let_def)

lemma EventLogger_asJson_value:
  assumes "Event_type (objects w r) = Inr ty"
  shows "EventLogger_asJson w t r =
     (Inr (Built [(''metadata'',
             Built ([(''timestamp'', Value (PDatetime (clock (logger w) (now_calls (logger w))))),
                     (''type'', Value ty)] @
                    (case correlation_id (logger w) of None \<Rightarrow> []
                     | Some c \<Rightarrow> [(''correlation_id'', Value (optional_str (get_value t c)))]))),
            (''event'', Vars r)]),
      w\<lparr>logger := (logger w)\<lparr>now_calls := Suc (now_calls (logger w))\<rparr>\<rparr>)"
  using assms by (cases "correlation_id (logger w)") (simp_all add: EventLogger_asJson_def Let_def)

lemma contents_built:
  "objects w1 = objects w \<Longrightarrow>
   contents w1 (Built [(''metadata'',
             Built ([(''timestamp'', Value (PDatetime d)), (''type'', Value ty)] @
                    (case c of None \<Rightarrow> []
                     | Some c \<Rightarrow> [(''correlation_id'', Value (optional_str (get_value t c)))]))),
            (''event'', Vars r)]) =
   PDict [(''metadata'', PDict ([(''timestamp'', PDatetime d), (''type'', ty)] @
                    (case c of None \<Rightarrow> []
                     | Some c \<Rightarrow> [(''correlation_id'', optional_str (get_value t c))]))),
          (''event'', PDict (vars (objects w r)))]"
  by (cases c) simp_all

lemma log_by_reference:
  "TextStreamEventLogger_log fmt w t r =
     (fst (log fmt (logger w) t (objects w r)),
      w\<lparr>logger := snd (log fmt (logger w) t (objects w r))\<rparr>)"
proof (cases "Event_type (objects w r)")
  case (Inl err)
  from EventLogger_asJson_raises [OF Inl, of t]
    log_raises_early [where fmt = fmt, OF asJson_raises [OF Inl, of "logger w" t]]
  show ?thesis by (simp add: TextStreamEventLogger_log_def)
next
  case (Inr ty)
  define obj where "obj = PDict [(''metadata'', PDict ([(''timestamp'', PDatetime (clock (logger w) (now_calls (logger w)))),
                                       (''type'', ty)] @
                    (case correlation_id (logger w) of None \<Rightarrow> []
                     | Some c \<Rightarrow> [(''correlation_id'', optional_str (get_value t c))]))),
                 (''event'', PDict (vars (objects w r)))]"
  have built: "fst (asJson (logger w) t (objects w r)) = Inr obj"
    unfolding obj_def by (rule asJson_value [OF Inr])
  have read: "contents (w\<lparr>logger := (logger w)\<lparr>now_calls := Suc (now_calls (logger w))\<rparr>\<rparr>)
      (Built [(''metadata'',
             Built ([(''timestamp'', Value (PDatetime (clock (logger w) (now_calls (logger w))))),
                     (''type'', Value ty)] @
                    (case correlation_id (logger w) of None \<Rightarrow> []
                     | Some c \<Rightarrow> [(''correlation_id'', Value (optional_str (get_value t c)))]))),
            (''event'', Vars r)]) = obj"
    unfolding obj_def by (rule contents_built) simp
  show ?thesis
  proof (cases "dumps fmt obj")
    case (Inl err)
    from log_raises [OF built Inl] EventLogger_asJson_value [OF Inr, of t] read Inl
    show ?thesis by (simp add: TextStreamEventLogger_log_def del: contents.simps)
  next
    case (Inr line)
    from log_returns [OF built Inr] EventLogger_asJson_value [OF \<open>Event_type (objects w r) = Inr ty\<close>, of t]
      read Inr
    show ?thesis by (simp add: TextStreamEventLogger_log_def del: contents.simps)
  qed
qed

text \<open>
  Claim C9. \<open>log\<close> is given a reference to the event. What \<open>asJson\<close> returns holds the
  event's own instance dictionary under \<open>event\<close>, and still the call leaves every
  object in the store as it was, the logged one included: nothing in \<open>asJson\<close>,
  \<open>json.dumps\<close> or \<open>print\<close> assigns to it. The logger holds the references it held
  before the call and no other; its configuration is unchanged; the clock has been
  read once and the stream has gained text, and that is all that changed.
\<close>

theorem log_leaves_event:
  "objects (snd (TextStreamEventLogger_log fmt w t r)) = objects w \<and>
   vars (objects (snd (TextStreamEventLogger_log fmt w t r)) r) = vars (objects w r) \<and>
   kept (snd (TextStreamEventLogger_log fmt w t r)) = kept w \<and>
   correlation_id (logger (snd (TextStreamEventLogger_log fmt w t r))) = correlation_id (logger w) \<and>
   clock (logger (snd (TextStreamEventLogger_log fmt w t r))) = clock (logger w) \<and>
   now_calls (logger (snd (TextStreamEventLogger_log fmt w t r))) = Suc (now_calls (logger w)) \<and>
   (\<exists>texts. output_stream (logger (snd (TextStreamEventLogger_log fmt w t r))) =
      output_stream (logger w) @ texts) \<and>
   (\<forall>obj. fst (EventLogger_asJson w t r) = Inr obj \<longrightarrow>
      (\<exists>md. obj = Built [(''metadata'', md), (''event'', Vars r)]))"
proof -
  have aliased: "\<exists>md. obj = Built [(''metadata'', md), (''event'', Vars r)]"
    if "fst (EventLogger_asJson w t r) = Inr obj" for obj
  proof (cases "Event_type (objects w r)")
    case (Inl err)
    with that EventLogger_asJson_raises [OF Inl, of t] show ?thesis by simp
  next
    case (Inr ty)
    with that EventLogger_asJson_value [OF Inr, of t] show ?thesis by auto
  qed
  have stream: "\<exists>texts. output_stream (snd (log fmt self t event)) = output_stream self @ texts"
    for self :: TextStreamEventLogger and event :: "'a Event"
  proof (cases "fst (asJson self t event)")
    case (Inl err)
    from log_raises_early [OF Inl, of fmt] show ?thesis by simp
  next
    case (Inr obj)
    then show ?thesis
      using log_raises [OF Inr, of fmt] log_returns [OF Inr, of fmt]
      by (cases "dumps fmt obj") simp_all
  qed
  from aliased stream [of "logger w" "objects w r"] log_state [of fmt "logger w" t "objects w r"]
  show ?thesis by (simp add: log_by_reference)
qed

theorem log_leaves_event_witness:
  "fst (TextStreamEventLogger_log (\<lambda>x :: unit. [])
      \<lparr>objects = (\<lambda>r. TestEvent ''value'' (PInt (int r))),
       logger = TextStreamEventLogger_init None TestClock, kept = []\<rparr> 0 7) = None \<and>
   objects (snd (TextStreamEventLogger_log (\<lambda>x :: unit. [])
      \<lparr>objects = (\<lambda>r. TestEvent ''value'' (PInt (int r))),
       logger = TextStreamEventLogger_init None TestClock, kept = []\<rparr> 0 7)) 7 =
     TestEvent ''value'' (PInt 7) \<and>
   kept (snd (TextStreamEventLogger_log (\<lambda>x :: unit. [])
      \<lparr>objects = (\<lambda>r. TestEvent ''value'' (PInt (int r))),
       logger = TextStreamEventLogger_init None TestClock, kept = []\<rparr> 0 7)) = [] \<and>
   fst (EventLogger_asJson
      \<lparr>objects = (\<lambda>r. TestEvent ''value'' (PInt (int r) :: unit pyval)),
       logger = TextStreamEventLogger_init None TestClock, kept = []\<rparr> 0 7) =
     Inr (Built [(''metadata'', Built [(''timestamp'', Value (PDatetime (TestClock 0))),
                                      (''type'', Value (PStr ''TestEvent''))]),
                 (''event'', Vars 7)])"
  using log_leaves_event [of "\<lambda>x :: unit. []"
      "\<lparr>objects = (\<lambda>r. TestEvent ''value'' (PInt (int r))),
        logger = TextStreamEventLogger_init None TestClock, kept = []\<rparr>" 0 7]
  by (simp add: TextStreamEventLogger_log_def EventLogger_asJson_def Event_type_def TestEvent_def
        TextStreamEventLogger_init_def int_repr_def decimal.simps digit_simps
        encode_basestring_ascii_def escape_char_def dumps_datetime del: dumps.simps(8))

subsection \<open>The example of the specification\<close>

text \<open>
  Claim C6, as the code has it. Logging a \<open>TestEvent\<close> whose one field \<open>value\<close> is
  \<open>"str"\<close>, with the fixed clock and no CorrelationID, writes the line below, in which
  \<open>json.dumps\<close> puts a space after every colon and comma that separates, and then one
  line terminator; the type in it is the name of the event's class.
\<close>

theorem example_line:
  \<open>fst (log fmt (TextStreamEventLogger_init None TestClock) t (TestEvent ''value'' (PStr ''str''))) = None \<and>
   output_stream (snd (log fmt (TextStreamEventLogger_init None TestClock) t
       (TestEvent ''value'' (PStr ''str'')))) =
     [''{"metadata": {"timestamp": "2021-05-01T11:22:33.001234+00:00", "type": "TestEvent"}, "event": {"value": "str"}}'',
      [CHR 0x0A]] \<and>
   written (snd (log fmt (TextStreamEventLogger_init None TestClock) t
       (TestEvent ''value'' (PStr ''str'')))) =
     ''{"metadata": {"timestamp": "2021-05-01T11:22:33.001234+00:00", "type": "TestEvent"}, "event": {"value": "str"}}'' @ [CHR 0x0A] \<and>
   Event_type (TestEvent ''value'' (PStr ''str'')) =
     Inr (PStr (class_name (TestEvent ''value'' (PStr ''str'')))) \<and>
   class_name (TestEvent ''value'' (PStr ''str'')) = ''TestEvent''\<close>
  by (simp add: log_eval isoformat_eval dumps_datetime del: dumps.simps(8))

text \<open>
  Claim C6 as the specification words it, with no space after the separators, is not
  what is written.
\<close>

theorem example_line_counterexample:
  \<open>written (snd (log (\<lambda>x :: unit. []) (TextStreamEventLogger_init None TestClock) 0
       (TestEvent ''value'' (PStr ''str'')))) \<noteq>
     ''{"metadata":{"timestamp":"2021-05-01T11:22:33.001234+00:00","type":"TestEvent"},"event":{"value":"str"}}'' @ [CHR 0x0A]\<close>
  by (simp add: log_eval isoformat_eval dumps_datetime del: dumps.simps(8))

subsection \<open>Threads writing to one stream\<close>






subsection \<open>Timestamps\<close>

























end
